theory Spec2Isabelle
  imports Complex_Main "HOL-Library.Sublist"
begin

section \<open>Values of the host language\<close>

text \<open>
  A value caught by a \<^verbatim>\<open>catch (error)\<close> clause. The source only ever asks whether it is an
  instance of \<^verbatim>\<open>Error\<close> (then it reads \<^verbatim>\<open>error.message\<close>) or not (then it takes
  \<^verbatim>\<open>String(error)\<close>), so a thrown value is one of these two, carrying that text.
\<close>

datatype thrown = ErrorObj string | NonError string

text \<open>
  The type \<^verbatim>\<open>number\<close>: a double is NaN, an infinity or a finite value (both zeros are
  \<open>Fin 0\<close>; the source never tells them apart).
\<close>

datatype number = NaN | NegInf | PosInf | Fin real

text \<open>Truthiness of a number, as \<^verbatim>\<open>||\<close> tests it: NaN and the zeros are falsy.\<close>

fun truthy :: "number \<Rightarrow> bool" where
  "truthy NaN = False"
| "truthy (Fin r) = (r \<noteq> 0)"
| "truthy _ = True"

text \<open>\<^verbatim>\<open>a <= b\<close> on numbers: false as soon as one side is NaN.\<close>

fun num_le :: "number \<Rightarrow> number \<Rightarrow> bool" where
  "num_le NaN _ = False"
| "num_le _ NaN = False"
| "num_le NegInf _ = True"
| "num_le _ PosInf = True"
| "num_le (Fin a) (Fin b) = (a \<le> b)"
| "num_le _ _ = False"

text \<open>\<^verbatim>\<open>Math.min(a, b)\<close>: NaN if either argument is NaN, otherwise the smaller one.\<close>

fun math_min :: "number \<Rightarrow> number \<Rightarrow> number" where
  "math_min NaN _ = NaN"
| "math_min _ NaN = NaN"
| "math_min a b = (if num_le a b then a else b)"

text \<open>
  A value read from a parsed JSON file or handed over by the OAuth2 library. An object is
  the list of its own properties; a lookup takes the first entry of a key.
\<close>

datatype jsval =
    Undefined
  | Null
  | Bool bool
  | Num number
  | Str string
  | Arr "jsval list"
  | Obj "(string \<times> jsval) list"

text \<open>Truthiness of a value, as \<^verbatim>\<open>||\<close> and \<^verbatim>\<open>!\<close> test it.\<close>

fun truthyVal :: "jsval \<Rightarrow> bool" where
  "truthyVal Undefined = False"
| "truthyVal Null = False"
| "truthyVal (Bool b) = b"
| "truthyVal (Num n) = truthy n"
| "truthyVal (Str s) = (s \<noteq> [])"
| "truthyVal (Arr xs) = True"
| "truthyVal (Obj kvs) = True"

definition readTypeError :: "string \<Rightarrow> string \<Rightarrow> thrown" where
  "readTypeError what k =
     ErrorObj (''Cannot read properties of '' @ what @ '' (reading '' @ [CHR 0x27] @ k
                 @ [CHR 0x27] @ '')'')"

text \<open>
  \<^verbatim>\<open>v.k\<close> for the property names the source reads (\<^verbatim>\<open>installed\<close>, \<^verbatim>\<open>web\<close>,
  \<^verbatim>\<open>client_id\<close>, \<^verbatim>\<open>client_secret\<close>, \<^verbatim>\<open>redirect_uris\<close>), none of which a built-in
  prototype defines: reading from \<^verbatim>\<open>undefined\<close> or \<^verbatim>\<open>null\<close> throws a TypeError, an object
  answers with its property, every other value with \<^verbatim>\<open>undefined\<close>.
\<close>

fun getField :: "jsval \<Rightarrow> string \<Rightarrow> thrown + jsval" where
  "getField Undefined k = Inl (readTypeError ''undefined'' k)"
| "getField Null k = Inl (readTypeError ''null'' k)"
| "getField (Obj kvs) k = Inr (case map_of kvs k of Some v \<Rightarrow> v | None \<Rightarrow> Undefined)"
| "getField _ k = Inr Undefined"

text \<open>\<^verbatim>\<open>v[0]\<close>: the first element of an array, the first character of a string.\<close>

fun getFirst :: "jsval \<Rightarrow> thrown + jsval" where
  "getFirst Undefined = Inl (readTypeError ''undefined'' ''0'')"
| "getFirst Null = Inl (readTypeError ''null'' ''0'')"
| "getFirst (Arr xs) = Inr (case xs of [] \<Rightarrow> Undefined | x # _ \<Rightarrow> x)"
| "getFirst (Str s) = Inr (case s of [] \<Rightarrow> Undefined | c # _ \<Rightarrow> Str [c])"
| "getFirst (Obj kvs) = Inr (case map_of kvs ''0'' of Some v \<Rightarrow> v | None \<Rightarrow> Undefined)"
| "getFirst _ = Inr Undefined"

text \<open>Sequencing of steps that may throw: the first thrown value ends the sequence.\<close>

definition andThen :: "thrown + 'a \<Rightarrow> ('a \<Rightarrow> thrown + 'b) \<Rightarrow> thrown + 'b" where
  "andThen r f = (case r of Inl e \<Rightarrow> Inl e | Inr x \<Rightarrow> f x)"

text \<open>Decimal text of an array length, as a template literal prints it.\<close>

definition digit_char :: "nat \<Rightarrow> char" where
  "digit_char d = char_of (48 + d)"

function string_of_nat :: "nat \<Rightarrow> string" where
  "string_of_nat n =
     (if n < 10 then [digit_char n]
      else string_of_nat (n div 10) @ [digit_char (n mod 10)])"
  by pat_completeness auto
termination
  by (relation "measure (\<lambda>n. n)") auto

declare string_of_nat.simps [simp del]

text \<open>\<^verbatim>\<open>xs.slice(i, j)\<close> for indices \<open>0 \<le> i\<close>, \<open>0 \<le> j\<close>: both ends are cut at the length.\<close>

definition slice :: "'a list \<Rightarrow> nat \<Rightarrow> nat \<Rightarrow> 'a list" where
  "slice xs i j = take (j - i) (drop i xs)"

text \<open>\<^verbatim>\<open>parts.join(sep)\<close>.\<close>

fun join :: "string \<Rightarrow> string list \<Rightarrow> string" where
  "join sep [] = []"
| "join sep [x] = x"
| "join sep (x # y # ys) = x @ sep @ join sep (y # ys)"


section \<open>The outside world\<close>

text \<open>
  Everything the client does is a call to the provider, to the console, to the file system or
  to the operator. A run is observed through its trace: the list of these events in the order
  in which the program performs them. A request is recorded with its outcome (\<open>None\<close>: the
  awaited promise resolved; \<open>Some e\<close>: it rejected with \<open>e\<close>).
\<close>

datatype call =
    GetProfile
  | MessagesList string number
  | MessagesGet string
  | BatchDelete "string list"
  | GetToken string

datatype event =
    ConsoleLog string
  | ConsoleError string "thrown option"
  | Request call "thrown option"
  | Question string
  | WriteFile string string "thrown option"

text \<open>\<^verbatim>\<open>types.ts\<close>\<close>

record EmailMatch =
  id_of :: string
  threadId :: string
  snippet :: string

record CleanupResult =
  totalFound :: nat
  deleted :: nat
  errors :: "string list"

text \<open>An entry of \<^verbatim>\<open>response.data.messages\<close>: both fields are optional in the provider's schema.\<close>

record Message =
  message_id :: "string option"
  message_threadId :: "string option"

text \<open>The argument of \<^verbatim>\<open>searchEmails\<close>: every field is optional.\<close>

record SearchConfig =
  senders :: "string list option"
  subjects :: "string list option"
  maxResults :: "number option"

text \<open>
  The provider, as the client sees it: each operation takes the state of the world and
  returns its answer with the next state. Nothing is assumed about the answers.
  \<open>numberToString\<close> is the host's conversion of a number inside a template literal and
  \<open>stringSubstring\<close> its \<^verbatim>\<open>s.substring(i, j)\<close>, which counts in the host's own units.
\<close>

record 'w gmail =
  getProfile :: "'w \<Rightarrow> thrown option \<times> 'w"
  messagesList :: "string \<Rightarrow> number \<Rightarrow> 'w \<Rightarrow> (thrown + Message list option) \<times> 'w"
  messagesGet :: "string \<Rightarrow> 'w \<Rightarrow> (thrown + string option) \<times> 'w"
  batchDelete :: "string list \<Rightarrow> 'w \<Rightarrow> thrown option \<times> 'w"
  numberToString :: "number \<Rightarrow> string"
  stringSubstring :: "string \<Rightarrow> nat \<Rightarrow> nat \<Rightarrow> string"

text \<open>
  The rest of what \<^verbatim>\<open>authenticate\<close> touches: the file system, \<^verbatim>\<open>JSON\<close>, the process
  environment, the operator at the terminal and the OAuth2 client object, which lives in the
  world (the Gmail handle shares it). A failing \<^verbatim>\<open>readFileSync\<close>, \<^verbatim>\<open>JSON.parse\<close>,
  \<^verbatim>\<open>getToken\<close> or \<^verbatim>\<open>writeFileSync\<close> answers with the value it throws.
\<close>

record 'w node =
  existsSync :: "'w \<Rightarrow> string \<Rightarrow> bool"
  readFileSync :: "'w \<Rightarrow> string \<Rightarrow> thrown + string"
  writeFileSync :: "string \<Rightarrow> string \<Rightarrow> 'w \<Rightarrow> thrown option \<times> 'w"
  jsonParse :: "string \<Rightarrow> thrown + jsval"
  jsonStringify :: "jsval \<Rightarrow> string"
  valueToString :: "jsval \<Rightarrow> string"
  stringTrim :: "string \<Rightarrow> string"
  processEnv :: "'w \<Rightarrow> string \<Rightarrow> string option"
  rlQuestion :: "string \<Rightarrow> 'w \<Rightarrow> string \<times> 'w"
  newOAuth2 :: "jsval \<Rightarrow> jsval \<Rightarrow> jsval \<Rightarrow> 'w \<Rightarrow> 'w"
  setCredentials :: "jsval \<Rightarrow> 'w \<Rightarrow> 'w"
  generateAuthUrl :: "'w \<Rightarrow> string"
  getToken :: "string \<Rightarrow> 'w \<Rightarrow> (thrown + jsval) \<times> 'w"


section \<open>\<^verbatim>\<open>batchDeleteEmails\<close>\<close>

definition batchSize :: nat where
  "batchSize = 1000"

text \<open>\<^verbatim>\<open>error instanceof Error ? error.message : String(error)\<close>\<close>

fun errorText :: "thrown \<Rightarrow> string" where
  "errorText (ErrorObj m) = m"
| "errorText (NonError s) = s"

definition deleteErrorMsg :: "thrown \<Rightarrow> string" where
  "deleteErrorMsg e = ''Error deleting batch: '' @ errorText e"

definition deletedBatchLine :: "nat \<Rightarrow> nat \<Rightarrow> nat \<Rightarrow> string" where
  "deletedBatchLine n d t =
     ''Deleted batch: '' @ string_of_nat n @ '' emails ('' @ string_of_nat d @ ''/''
       @ string_of_nat t @ '')''"

text \<open>
  The \<^verbatim>\<open>for (let i = 0; i < messageIds.length; i += batchSize)\<close> loop, from index \<open>i\<close> on,
  with the result object, the world and the trace as they stand.
\<close>

function batchLoop ::
  "'w gmail \<Rightarrow> string list \<Rightarrow> nat \<Rightarrow> CleanupResult \<Rightarrow> 'w \<Rightarrow> event list
     \<Rightarrow> CleanupResult \<times> 'w \<times> event list" where
  "batchLoop g messageIds i result w tr =
     (if i < length messageIds then
        (let batch = slice messageIds i (i + batchSize) in
         case batchDelete g batch w of
           (None, w') \<Rightarrow>
             (let result' = result\<lparr>deleted := deleted result + length batch\<rparr> in
              batchLoop g messageIds (i + batchSize) result' w'
                (tr @ [Request (BatchDelete batch) None,
                       ConsoleLog (deletedBatchLine (length batch) (deleted result')
                                     (totalFound result'))]))
         | (Some error, w') \<Rightarrow>
             (let errorMsg = deleteErrorMsg error in
              batchLoop g messageIds (i + batchSize)
                (result\<lparr>errors := errors result @ [errorMsg]\<rparr>) w'
                (tr @ [Request (BatchDelete batch) (Some error),
                       ConsoleError errorMsg None])))
      else (result, w, tr))"
  by pat_completeness auto
termination
  by (relation "measure (\<lambda>(g, messageIds, i, result, w, tr). length messageIds - i)")
     (auto simp: batchSize_def)

declare batchLoop.simps [simp del]

definition batchDeleteEmails ::
  "'w gmail \<Rightarrow> string list \<Rightarrow> bool \<Rightarrow> 'w \<Rightarrow> CleanupResult \<times> 'w \<times> event list" where
  "batchDeleteEmails g messageIds dryRun w =
     (let result = \<lparr>totalFound = length messageIds, deleted = 0, errors = []\<rparr> in
      if dryRun then
        (result, w,
         [ConsoleLog (''[DRY RUN] Would delete '' @ string_of_nat (length messageIds)
                        @ '' emails'')])
      else batchLoop g messageIds 0 result w [])"


section \<open>\<^verbatim>\<open>searchEmails\<close>\<close>

text \<open>Lines 121 to 133: the groups of the query, in the order in which they are pushed.\<close>

definition queryParts :: "SearchConfig \<Rightarrow> string list" where
  "queryParts config =
     (let queryParts0 = [];
          queryParts1 =
            (case senders config of
               Some ss \<Rightarrow>
                 if length ss > 0 then
                   queryParts0
                     @ [''('' @ join '' OR '' (map (\<lambda>sender. ''from:'' @ sender) ss) @ '')'']
                 else queryParts0
             | None \<Rightarrow> queryParts0)
      in case subjects config of
           Some ts \<Rightarrow>
             if length ts > 0 then
               queryParts1
                 @ [''('' @ join '' OR ''
                      (map (\<lambda>subject. ''subject:'' @ [CHR 0x22] @ subject @ [CHR 0x22]) ts)
                    @ '')'']
             else queryParts1
         | None \<Rightarrow> queryParts1)"

text \<open>\<^verbatim>\<open>queryParts.join(' AND ')\<close>\<close>

definition searchQuery :: "SearchConfig \<Rightarrow> string" where
  "searchQuery config = join '' AND '' (queryParts config)"

text \<open>\<^verbatim>\<open>config.maxResults || 500\<close>\<close>

definition effectiveMaxResults :: "SearchConfig \<Rightarrow> number" where
  "effectiveMaxResults config =
     (case maxResults config of
        Some n \<Rightarrow> if truthy n then n else Fin 500
      | None \<Rightarrow> Fin 500)"

text \<open>\<^verbatim>\<open>Math.min(maxResults, 500)\<close>, the value sent with the listing request.\<close>

definition searchLimit :: "SearchConfig \<Rightarrow> number" where
  "searchLimit config = math_min (effectiveMaxResults config) (Fin 500)"

text \<open>
  The \<^verbatim>\<open>for (const message of messageIds)\<close> loop. An entry whose id is missing or empty
  is passed over; a failed fetch is written to the error stream and the loop goes on.
\<close>

fun fetchLoop ::
  "'w gmail \<Rightarrow> Message list \<Rightarrow> EmailMatch list \<Rightarrow> 'w \<Rightarrow> event list
     \<Rightarrow> EmailMatch list \<times> 'w \<times> event list" where
  "fetchLoop g [] matches w tr = (matches, w, tr)"
| "fetchLoop g (message # rest) matches w tr =
     (case message_id message of
        None \<Rightarrow> fetchLoop g rest matches w tr
      | Some mid \<Rightarrow>
          if mid = [] then fetchLoop g rest matches w tr
          else
            (case messagesGet g mid w of
               (Inr dataSnippet, w') \<Rightarrow>
                 (let snippet0 = (case dataSnippet of Some s \<Rightarrow> s | None \<Rightarrow> [])
                  in fetchLoop g rest
                       (matches @
                          [\<lparr>id_of = mid,
                            threadId =
                              (case message_threadId message of Some t \<Rightarrow> t | None \<Rightarrow> []),
                            snippet = stringSubstring g snippet0 0 100\<rparr>])
                       w' (tr @ [Request (MessagesGet mid) None]))
             | (Inl error, w') \<Rightarrow>
                 fetchLoop g rest matches w'
                   (tr @ [Request (MessagesGet mid) (Some error),
                          ConsoleError (''Error fetching message '' @ mid @ '':'')
                            (Some error)])))"

definition searchEmails ::
  "'w gmail \<Rightarrow> SearchConfig \<Rightarrow> 'w \<Rightarrow> (thrown + EmailMatch list) \<times> 'w \<times> event list" where
  "searchEmails g config w =
     (if length (queryParts config) = 0 then
        (Inl (ErrorObj ''At least one sender or subject must be specified''), w, [])
      else
        (let query = searchQuery config;
             maxResults0 = effectiveMaxResults config;
             tr = [ConsoleLog (''Searching for emails with query: '' @ query),
                   ConsoleLog (''Max results: '' @ numberToString g maxResults0)];
             limit = math_min maxResults0 (Fin 500)
         in case messagesList g query limit w of
              (Inl error, w') \<Rightarrow>
                (Inl error, w', tr @ [Request (MessagesList query limit) (Some error)])
            | (Inr messages, w') \<Rightarrow>
                (let messageIds = (case messages of Some ms \<Rightarrow> ms | None \<Rightarrow> [])
                 in case fetchLoop g messageIds [] w'
                           (tr @ [Request (MessagesList query limit) None]) of
                      (matches, w'', tr') \<Rightarrow> (Inr matches, w'', tr'))))"


section \<open>\<^verbatim>\<open>authenticate\<close>\<close>

text \<open>Lines 27 to 43: client id, client secret and redirect URI, from the file or the environment.\<close>

definition missingCredentialsMessage :: string where
  "missingCredentialsMessage =
     ''credentials.json not found and CLIENT_ID/CLIENT_SECRET not set.'' @ [CHR 0x0A]
     @ ''Please download credentials.json from Google Cloud Console or set environment variables.''
     @ [CHR 0x0A] @ ''See README.md for setup instructions.''"

definition envTruthy :: "string option \<Rightarrow> bool" where
  "envTruthy v = (case v of Some s \<Rightarrow> s \<noteq> [] | None \<Rightarrow> False)"

definition resolveCredentials :: "'w node \<Rightarrow> 'w \<Rightarrow> thrown + (jsval \<times> jsval \<times> jsval)" where
  "resolveCredentials n w =
     (if existsSync n w ''credentials.json'' then
        andThen (readFileSync n w ''credentials.json'') (\<lambda>text.
        andThen (jsonParse n text) (\<lambda>credentials.
        andThen (getField credentials ''installed'') (\<lambda>installed.
        andThen (if truthyVal installed then Inr installed else getField credentials ''web'')
          (\<lambda>creds.
        andThen (getField creds ''client_id'') (\<lambda>clientId.
        andThen (getField creds ''client_secret'') (\<lambda>clientSecret.
        andThen (getField creds ''redirect_uris'') (\<lambda>uris.
        andThen (getFirst uris) (\<lambda>redirectUri.
        Inr (clientId, clientSecret, redirectUri)))))))))
      else if envTruthy (processEnv n w ''CLIENT_ID'')
              \<and> envTruthy (processEnv n w ''CLIENT_SECRET'') then
        Inr (Str (the (processEnv n w ''CLIENT_ID'')),
             Str (the (processEnv n w ''CLIENT_SECRET'')),
             Str (if envTruthy (processEnv n w ''REDIRECT_URI'')
                  then the (processEnv n w ''REDIRECT_URI'')
                  else ''http://localhost:3000/oauth2callback''))
      else Inl (ErrorObj missingCredentialsMessage))"

text \<open>
  Lines 69 to 81: the instructions printed before the code is asked for. The box-drawing
  character and the padlock of the banner are written as their UTF-8 bytes.
\<close>

definition bannerRule :: string where
  "bannerRule = concat (replicate 59 [CHR 0xE2, CHR 0x95, CHR 0x90])"

definition authorizationLines :: "string \<Rightarrow> string \<Rightarrow> string list" where
  "authorizationLines authUrl redirectUri =
     [[CHR 0x0A] @ bannerRule,
      [CHR 0xF0, CHR 0x9F, CHR 0x94, CHR 0x90] @ '' Gmail API Authorization Required'',
      bannerRule @ [CHR 0x0A],
      ''1. Open this URL in your browser:'',
      ''   '' @ authUrl @ [CHR 0x0A],
      ''2. Sign in with your Google account'',
      ''3. Click '' @ [CHR 0x22] @ ''Allow'' @ [CHR 0x22] @ '' to grant access'' @ [CHR 0x0A],
      ''4. After authorization, you will be redirected to a page.'',
      ''   Look at the URL in your browser - it will look like:'',
      ''   '' @ redirectUri @ ''?code=4/XXXXXXXXXXXXXXXXXXXXXXXXXXXXX'' @ [CHR 0x0A],
      ''5. Copy the ENTIRE code value (everything after '' @ [CHR 0x22] @ ''code=''
        @ [CHR 0x22] @ '')'',
      ''   and paste it below when prompted.'' @ [CHR 0x0A],
      bannerRule @ [CHR 0x0A]]"

text \<open>Lines 105 to 110: the code is exchanged for a token, which is installed and saved.\<close>

definition exchangeCode ::
  "'w node \<Rightarrow> string \<Rightarrow> 'w \<Rightarrow> event list \<Rightarrow> (thrown + unit) \<times> 'w \<times> event list" where
  "exchangeCode n code w tr =
     (case getToken n code w of
        (Inl error, w') \<Rightarrow> (Inl error, w', tr @ [Request (GetToken code) (Some error)])
      | (Inr tokens, w') \<Rightarrow>
          (let w2 = setCredentials n tokens w';
               tr1 = tr @ [Request (GetToken code) None]
           in case writeFileSync n ''token.json'' (jsonStringify n tokens) w2 of
                (Some error, w3) \<Rightarrow>
                  (Inl error, w3,
                   tr1 @ [WriteFile ''token.json'' (jsonStringify n tokens) (Some error)])
              | (None, w3) \<Rightarrow>
                  (Inr (), w3,
                   tr1 @ [WriteFile ''token.json'' (jsonStringify n tokens) None,
                          ConsoleLog ''Token stored to token.json''])))"

text \<open>Lines 63 to 110: the interactive authorization flow.\<close>

definition reauthorize ::
  "'w node \<Rightarrow> jsval \<Rightarrow> 'w \<Rightarrow> event list \<Rightarrow> (thrown + unit) \<times> 'w \<times> event list" where
  "reauthorize n redirectUri w tr =
     (let authUrl = generateAuthUrl n w;
          tr1 = tr @ map ConsoleLog (authorizationLines authUrl (valueToString n redirectUri))
      in if envTruthy (processEnv n w ''AUTH_CODE'') then
           exchangeCode n (the (processEnv n w ''AUTH_CODE'')) w tr1
         else
           (case rlQuestion n ''Paste the authorization code here: '' w of
              (answer, w') \<Rightarrow>
                (let code = stringTrim n answer;
                     tr2 = tr1 @ [Question ''Paste the authorization code here: '']
                 in if code = [] then
                      (Inl (ErrorObj
                         ''Authorization code is required. Please run again and provide the code.''),
                       w', tr2)
                    else exchangeCode n code w' tr2)))"

text \<open>Lines 49 to 111, with the OAuth2 client in place.\<close>

definition checkSavedToken ::
  "'w node \<Rightarrow> 'w gmail \<Rightarrow> jsval \<Rightarrow> 'w \<Rightarrow> (thrown + unit) \<times> 'w \<times> event list" where
  "checkSavedToken n g redirectUri w =
     (if existsSync n w ''token.json'' then
        (case andThen (readFileSync n w ''token.json'') (jsonParse n) of
           Inl error \<Rightarrow> (Inl error, w, [])
         | Inr token \<Rightarrow>
             (case getProfile g (setCredentials n token w) of
                (None, w') \<Rightarrow> (Inr (), w', [Request GetProfile None])
              | (Some error, w') \<Rightarrow>
                  reauthorize n redirectUri w'
                    [Request GetProfile (Some error),
                     ConsoleLog ''Saved token is invalid or expired. Re-authenticating...'']))
      else reauthorize n redirectUri w [])"

definition authenticate ::
  "'w node \<Rightarrow> 'w gmail \<Rightarrow> 'w \<Rightarrow> (thrown + unit) \<times> 'w \<times> event list" where
  "authenticate n g w =
     (case resolveCredentials n w of
        Inl error \<Rightarrow> (Inl error, w, [])
      | Inr (clientId, clientSecret, redirectUri) \<Rightarrow>
          checkSavedToken n g redirectUri (newOAuth2 n clientId clientSecret redirectUri w))"


section \<open>Reading a trace\<close>

text \<open>All requests of a run with their outcomes, in the order in which they were issued.\<close>

fun requests :: "event list \<Rightarrow> (call \<times> thrown option) list" where
  "requests [] = []"
| "requests (Request c r # es) = (c, r) # requests es"
| "requests (_ # es) = requests es"

text \<open>The deletion requests: the chunk sent, and the outcome.\<close>

fun deletionRequests :: "event list \<Rightarrow> (string list \<times> thrown option) list" where
  "deletionRequests [] = []"
| "deletionRequests (Request (BatchDelete b) r # es) = (b, r) # deletionRequests es"
| "deletionRequests (_ # es) = deletionRequests es"

definition chunksRequested :: "event list \<Rightarrow> string list list" where
  "chunksRequested tr = map fst (deletionRequests tr)"

definition deletionOutcomes :: "event list \<Rightarrow> thrown option list" where
  "deletionOutcomes tr = map snd (deletionRequests tr)"

definition failedChunks :: "event list \<Rightarrow> string list list" where
  "failedChunks tr = map fst (filter (\<lambda>(b, r). r \<noteq> None) (deletionRequests tr))"

text \<open>The listing requests: the query and the result cap sent.\<close>

fun listingRequests :: "event list \<Rightarrow> (string \<times> number) list" where
  "listingRequests [] = []"
| "listingRequests (Request (MessagesList q m) r # es) = (q, m) # listingRequests es"
| "listingRequests (_ # es) = listingRequests es"

text \<open>The metadata requests: the id asked for, and the outcome.\<close>

fun fetchRequests :: "event list \<Rightarrow> (string \<times> thrown option) list" where
  "fetchRequests [] = []"
| "fetchRequests (Request (MessagesGet i) r # es) = (i, r) # fetchRequests es"
| "fetchRequests (_ # es) = fetchRequests es"

definition failedFetches :: "event list \<Rightarrow> (string \<times> thrown option) list" where
  "failedFetches tr = filter (\<lambda>(i, r). r \<noteq> None) (fetchRequests tr)"

definition fetchedIds :: "event list \<Rightarrow> string list" where
  "fetchedIds tr = map fst (filter (\<lambda>(i, r). r = None) (fetchRequests tr))"

text \<open>What went to the console and to the operator.\<close>

fun consoleLines :: "event list \<Rightarrow> string list" where
  "consoleLines [] = []"
| "consoleLines (ConsoleLog l # es) = l # consoleLines es"
| "consoleLines (_ # es) = consoleLines es"

fun errorLines :: "event list \<Rightarrow> (string \<times> thrown option) list" where
  "errorLines [] = []"
| "errorLines (ConsoleError l e # es) = (l, e) # errorLines es"
| "errorLines (_ # es) = errorLines es"

fun questions :: "event list \<Rightarrow> string list" where
  "questions [] = []"
| "questions (Question q # es) = q # questions es"
| "questions (_ # es) = questions es"


section \<open>The words of the specification\<close>

text \<open>
  Cutting a list into consecutive chunks of \<open>n\<close> elements, the last one holding what is left.
\<close>

function chunk :: "nat \<Rightarrow> 'a list \<Rightarrow> 'a list list" where
  "chunk n xs = (if n = 0 \<or> xs = [] then [] else take n xs # chunk n (drop n xs))"
  by pat_completeness auto
termination
  by (relation "measure (\<lambda>(n, xs). length xs)") auto

declare chunk.simps [simp del]

text \<open>What a list of deletion outcomes adds up to: the ids deleted, the messages recorded.\<close>

fun deletedCount :: "(string list \<times> thrown option) list \<Rightarrow> nat" where
  "deletedCount [] = 0"
| "deletedCount ((b, None) # rs) = length b + deletedCount rs"
| "deletedCount ((b, Some e) # rs) = deletedCount rs"

fun failureMsgs :: "(string list \<times> thrown option) list \<Rightarrow> string list" where
  "failureMsgs [] = []"
| "failureMsgs ((b, None) # rs) = failureMsgs rs"
| "failureMsgs ((b, Some e) # rs) = deleteErrorMsg e # failureMsgs rs"

text \<open>
  Handing the provider one deletion request per chunk, one after the other: the outcomes it
  gives and the world it is left in.
\<close>

fun issueAll :: "'w gmail \<Rightarrow> string list list \<Rightarrow> 'w \<Rightarrow> thrown option list \<times> 'w" where
  "issueAll g [] w = ([], w)"
| "issueAll g (c # cs) w =
     (case batchDelete g c w of
        (r, w1) \<Rightarrow> (case issueAll g cs w1 of (rs, w2) \<Rightarrow> (r # rs, w2)))"

text \<open>
  Handing the provider one metadata request per id, one after the other: the world it is
  left in.
\<close>

fun afterFetches :: "'w gmail \<Rightarrow> string list \<Rightarrow> 'w \<Rightarrow> 'w" where
  "afterFetches g [] w = w"
| "afterFetches g (i # is) w = afterFetches g is (snd (messagesGet g i w))"

text \<open>A group of the query: its terms joined by OR, in parentheses.\<close>

definition orGroup :: "string list \<Rightarrow> string" where
  "orGroup terms = ''('' @ join '' OR '' terms @ '')''"

definition fromTerm :: "string \<Rightarrow> string" where
  "fromTerm address = ''from:'' @ address"

definition subjectTerm :: "string \<Rightarrow> string" where
  "subjectTerm text = ''subject:'' @ [CHR 0x22] @ text @ [CHR 0x22]"

text \<open>A list is supplied when the field is there and the list is not empty.\<close>

fun supplied :: "'a list option \<Rightarrow> bool" where
  "supplied None = False"
| "supplied (Some xs) = (xs \<noteq> [])"

fun listOf :: "'a list option \<Rightarrow> 'a list" where
  "listOf None = []"
| "listOf (Some xs) = xs"

text \<open>The candidate ids of a listing: the ids its entries carry.\<close>

definition candidateIds :: "Message list \<Rightarrow> string list" where
  "candidateIds ms =
     filter (\<lambda>i. i \<noteq> [])
       (concat (map (\<lambda>m. case message_id m of Some i \<Rightarrow> [i] | None \<Rightarrow> []) ms))"


text \<open>
  Handing the provider the listing request with query \<open>q\<close> and cap \<open>m\<close> and, if it
  succeeds, the metadata requests for the candidate ids it lists: the world it is left in.
\<close>

definition afterSearch :: "'w gmail \<Rightarrow> string \<Rightarrow> number \<Rightarrow> 'w \<Rightarrow> 'w" where
  "afterSearch g q m w =
     (case messagesList g q m w of
        (Inl e, w1) \<Rightarrow> w1
      | (Inr listing, w1) \<Rightarrow> afterFetches g (candidateIds (listOf listing)) w1)"

definition fetchErrorLine :: "string \<times> thrown option \<Rightarrow> string \<times> thrown option" where
  "fetchErrorLine f = (''Error fetching message '' @ fst f @ '':'', snd f)"


section \<open>A provider and a host to run the client against\<close>

text \<open>
  The world is the number of provider calls answered so far. The listing has ten entries;
  the metadata of \<open>m3\<close> cannot be fetched; a deletion request fails when it is the second
  call; the profile probe succeeds only as the first call.
\<close>

definition demoMessage :: "string \<Rightarrow> string \<Rightarrow> Message" where
  "demoMessage i t = \<lparr>message_id = Some i, message_threadId = Some t\<rparr>"

definition demoListing :: "Message list" where
  "demoListing =
     [demoMessage ''m0'' ''t0'', demoMessage ''m1'' ''t1'', demoMessage ''m2'' ''t2'',
      demoMessage ''m3'' ''t3'', demoMessage ''m4'' ''t4'', demoMessage ''m5'' ''t5'',
      demoMessage ''m6'' ''t6'', demoMessage ''m7'' ''t7'', demoMessage ''m8'' ''t8'',
      demoMessage ''m9'' ''t9'']"

definition demoNumberToString :: "number \<Rightarrow> string" where
  "demoNumberToString n =
     (case n of NaN \<Rightarrow> ''NaN'' | NegInf \<Rightarrow> ''-Infinity'' | PosInf \<Rightarrow> ''Infinity''
      | Fin r \<Rightarrow> string_of_nat (nat \<lfloor>r\<rfloor>))"

definition demoGmail :: "nat gmail" where
  "demoGmail =
     \<lparr>getProfile = (\<lambda>w. (if w = 0 then None else Some (ErrorObj ''invalid_grant''), Suc w)),
      messagesList = (\<lambda>q m w. (Inr (Some demoListing), Suc w)),
      messagesGet =
        (\<lambda>i w. (if i = ''m3'' then Inl (ErrorObj ''backend error'') else Inr (Some ''Hello''),
                 Suc w)),
      batchDelete = (\<lambda>b w. (if w = 1 then Some (ErrorObj ''quota exceeded'') else None, Suc w)),
      numberToString = demoNumberToString,
      stringSubstring = (\<lambda>s i j. take (j - i) (drop i s))\<rparr>"

text \<open>
  The same provider keeping a record of what it is handed: the world is the list of the
  calls received so far, each with its arguments.
\<close>

definition recordingGmail :: "call list gmail" where
  "recordingGmail =
     \<lparr>getProfile =
        (\<lambda>w. (if w = [] then None else Some (ErrorObj ''invalid_grant''), w @ [GetProfile])),
      messagesList = (\<lambda>q m w. (Inr (Some demoListing), w @ [MessagesList q m])),
      messagesGet =
        (\<lambda>i w. (if i = ''m3'' then Inl (ErrorObj ''backend error'') else Inr (Some ''Hello''),
                 w @ [MessagesGet i])),
      batchDelete =
        (\<lambda>b w. (if length w = 1 then Some (ErrorObj ''quota exceeded'') else None,
                 w @ [BatchDelete b])),
      numberToString = demoNumberToString,
      stringSubstring = (\<lambda>s i j. take (j - i) (drop i s))\<rparr>"

definition manyIds :: "string list" where
  "manyIds = map string_of_nat [0..<2500]"

definition demoCredentials :: jsval where
  "demoCredentials =
     Obj [(''installed'',
           Obj [(''client_id'', Str ''client-1''), (''client_secret'', Str ''hush''),
                (''redirect_uris'', Arr [Str ''http://localhost''])])]"

definition demoToken :: jsval where
  "demoToken = Obj [(''access_token'', Str ''ya29''), (''refresh_token'', Str ''1//r'')]"

definition demoNode :: "nat node" where
  "demoNode =
     \<lparr>existsSync = (\<lambda>w p. True),
      readFileSync = (\<lambda>w p. Inr (if p = ''token.json'' then ''T'' else ''C'')),
      writeFileSync = (\<lambda>p c w. (None, w)),
      jsonParse = (\<lambda>s. Inr (if s = ''T'' then demoToken else demoCredentials)),
      jsonStringify = (\<lambda>v. ''T''),
      valueToString = (\<lambda>v. case v of Str s \<Rightarrow> s | _ \<Rightarrow> ''?''),
      stringTrim = (\<lambda>s. s),
      processEnv = (\<lambda>w k. if k = ''AUTH_CODE'' then Some ''4/code'' else None),
      rlQuestion = (\<lambda>p w. (''4/typed'', w)),
      newOAuth2 = (\<lambda>a b c w. w),
      setCredentials = (\<lambda>t w. w),
      generateAuthUrl = (\<lambda>w. ''https://accounts.example/auth''),
      getToken = (\<lambda>c w. (Inr demoToken, Suc w))\<rparr>"

text \<open>The same host with a token file that does not parse.\<close>

definition corruptNode :: "nat node" where
  "corruptNode =
     demoNode\<lparr>jsonParse :=
       (\<lambda>s. if s = ''T'' then Inl (ErrorObj ''Unexpected token T in JSON at position 0'')
             else Inr demoCredentials)\<rparr>"

text \<open>What the recording provider holds after a search for one sender with cap \<open>m\<close>.\<close>

definition demoCalls :: "number \<Rightarrow> call list" where
  "demoCalls m =
     [MessagesList ''(from:spam@example.com)'' m,
      MessagesGet ''m0'', MessagesGet ''m1'', MessagesGet ''m2'', MessagesGet ''m3'',
      MessagesGet ''m4'', MessagesGet ''m5'', MessagesGet ''m6'', MessagesGet ''m7'',
      MessagesGet ''m8'', MessagesGet ''m9'']"


section \<open>Deleting in chunks\<close>

lemma chunk_Nil [simp]: "chunk n [] = []"
  by (simp add: chunk.simps)

lemma batchLoop_stop:
  "\<not> i < length ids \<Longrightarrow> batchLoop g ids i res w tr = (res, w, tr)"
  by (simp add: batchLoop.simps)

lemma deletionRequests_append:
  "deletionRequests (xs @ ys) = deletionRequests xs @ deletionRequests ys"
  by (induction xs rule: deletionRequests.induct) auto

lemma deletedCount_append: "deletedCount (xs @ ys) = deletedCount xs + deletedCount ys"
  by (induction xs rule: deletedCount.induct) auto

lemma failureMsgs_append: "failureMsgs (xs @ ys) = failureMsgs xs @ failureMsgs ys"
  by (induction xs rule: failureMsgs.induct) auto

lemma chunk_step:
  "i < length xs \<Longrightarrow> chunk batchSize (drop i xs) = slice xs i (i + batchSize) # chunk batchSize (drop (i + batchSize) xs)"
  by (subst chunk.simps) (simp add: batchSize_def slice_def add.commute)

lemma chunk_done: "\<not> i < length xs \<Longrightarrow> chunk batchSize (drop i xs) = []"
  by (subst chunk.simps) simp

lemma batchLoop_ok:
  "i < length ids \<Longrightarrow> batchDelete g (slice ids i (i + batchSize)) w = (None, w1) \<Longrightarrow>
   batchLoop g ids i res w tr =
     batchLoop g ids (i + batchSize)
       (res\<lparr>deleted := deleted res + length (slice ids i (i + batchSize))\<rparr>) w1
       (tr @ [Request (BatchDelete (slice ids i (i + batchSize))) None,
              ConsoleLog (deletedBatchLine (length (slice ids i (i + batchSize)))
                (deleted res + length (slice ids i (i + batchSize))) (totalFound res))])"
  by (subst batchLoop.simps) (simp add: Let_def)

lemma batchLoop_fail:
  "i < length ids \<Longrightarrow> batchDelete g (slice ids i (i + batchSize)) w = (Some e, w1) \<Longrightarrow>
   batchLoop g ids i res w tr =
     batchLoop g ids (i + batchSize)
       (res\<lparr>errors := errors res @ [deleteErrorMsg e]\<rparr>) w1
       (tr @ [Request (BatchDelete (slice ids i (i + batchSize))) (Some e),
              ConsoleError (deleteErrorMsg e) None])"
  by (subst batchLoop.simps) (simp add: Let_def)

lemma batchLoop_run:
  "batchLoop g ids i res w tr = (res', w', tr') \<Longrightarrow>
   \<exists>new. tr' = tr @ new \<and>
     map fst (deletionRequests new) = chunk batchSize (drop i ids) \<and>
     totalFound res' = totalFound res \<and>
     deleted res' = deleted res + deletedCount (deletionRequests new) \<and>
     errors res' = errors res @ failureMsgs (deletionRequests new)"
proof (induction "length ids - i" arbitrary: i res w tr rule: less_induct)
  case less
  show ?case
  proof (cases "i < length ids")
    case False
    with less.prems show ?thesis
      by (simp add: chunk_done batchLoop_stop)
  next
    case True
    then have dec: "length ids - (i + batchSize) < length ids - i"
      by (simp add: batchSize_def)
    obtain r w1 where bd: "batchDelete g (slice ids i (i + batchSize)) w = (r, w1)"
      by (cases "batchDelete g (slice ids i (i + batchSize)) w")
    show ?thesis
    proof (cases r)
      case None
      with less.prems True bd have
        "batchLoop g ids (i + batchSize)
           (res\<lparr>deleted := deleted res + length (slice ids i (i + batchSize))\<rparr>) w1
           (tr @ [Request (BatchDelete (slice ids i (i + batchSize))) None,
              ConsoleLog (deletedBatchLine (length (slice ids i (i + batchSize)))
                (deleted res + length (slice ids i (i + batchSize))) (totalFound res))])
         = (res', w', tr')"
        by (simp add: batchLoop_ok)
      from less.hyps[OF dec this] True show ?thesis
        by (clarsimp simp: deletionRequests_append deletedCount_append failureMsgs_append
              chunk_step)
    next
      case (Some e)
      with less.prems True bd have
        "batchLoop g ids (i + batchSize)
           (res\<lparr>errors := errors res @ [deleteErrorMsg e]\<rparr>) w1
           (tr @ [Request (BatchDelete (slice ids i (i + batchSize))) (Some e),
              ConsoleError (deleteErrorMsg e) None])
         = (res', w', tr')"
        by (simp add: batchLoop_fail)
      from less.hyps[OF dec this] True show ?thesis
        by (clarsimp simp: deletionRequests_append deletedCount_append failureMsgs_append
              chunk_step)
    qed
  qed
qed


lemma batchLoop_issue:
  "batchLoop g ids i res w tr = (res', w', tr') \<Longrightarrow>
   \<exists>new. tr' = tr @ new \<and>
     issueAll g (chunk batchSize (drop i ids)) w = (map snd (deletionRequests new), w')"
proof (induction "length ids - i" arbitrary: i res w tr rule: less_induct)
  case less
  show ?case
  proof (cases "i < length ids")
    case False
    with less.prems show ?thesis
      by (simp add: chunk_done batchLoop_stop)
  next
    case True
    then have dec: "length ids - (i + batchSize) < length ids - i"
      by (simp add: batchSize_def)
    obtain r w1 where bd: "batchDelete g (slice ids i (i + batchSize)) w = (r, w1)"
      by (cases "batchDelete g (slice ids i (i + batchSize)) w")
    show ?thesis
    proof (cases r)
      case None
      with less.prems True bd have
        "batchLoop g ids (i + batchSize)
           (res\<lparr>deleted := deleted res + length (slice ids i (i + batchSize))\<rparr>) w1
           (tr @ [Request (BatchDelete (slice ids i (i + batchSize))) None,
              ConsoleLog (deletedBatchLine (length (slice ids i (i + batchSize)))
                (deleted res + length (slice ids i (i + batchSize))) (totalFound res))])
         = (res', w', tr')"
        by (simp add: batchLoop_ok)
      from less.hyps[OF dec this] True bd None show ?thesis
        by (clarsimp simp: deletionRequests_append chunk_step)
    next
      case (Some e)
      with less.prems True bd have
        "batchLoop g ids (i + batchSize)
           (res\<lparr>errors := errors res @ [deleteErrorMsg e]\<rparr>) w1
           (tr @ [Request (BatchDelete (slice ids i (i + batchSize))) (Some e),
              ConsoleError (deleteErrorMsg e) None])
         = (res', w', tr')"
        by (simp add: batchLoop_fail)
      from less.hyps[OF dec this] True bd Some show ?thesis
        by (clarsimp simp: deletionRequests_append chunk_step)
    qed
  qed
qed

lemma batchDelete_issue:
  assumes "batchDeleteEmails g ids False w = (res, w', tr)"
  shows "issueAll g (chunk batchSize ids) w = (deletionOutcomes tr, w')"
  using batchLoop_issue[of g ids 0 "\<lparr>totalFound = length ids, deleted = 0, errors = []\<rparr>" w "[]"
      res w' tr] assms
  by (auto simp: batchDeleteEmails_def deletionOutcomes_def)

lemma chunk_unfold: "0 < n \<Longrightarrow> xs \<noteq> [] \<Longrightarrow> chunk n xs = take n xs # chunk n (drop n xs)"
  by (subst chunk.simps) simp

lemma concat_chunk: "0 < n \<Longrightarrow> concat (chunk n xs) = xs"
proof (induction n xs rule: chunk.induct)
  case (1 n xs)
  then show ?case
    by (cases "xs = []") (simp_all add: chunk_unfold)
qed

lemma chunk_member: "c \<in> set (chunk n xs) \<Longrightarrow> c \<noteq> [] \<and> length c \<le> n"
proof (induction n xs rule: chunk.induct)
  case (1 n xs)
  show ?case
  proof (cases "n = 0 \<or> xs = []")
    case True
    with "1.prems" show ?thesis by (auto simp: chunk.simps)
  next
    case False
    with "1.prems" have "c = take n xs \<or> c \<in> set (chunk n (drop n xs))"
      by (simp add: chunk_unfold)
    with "1.IH" False show ?thesis by auto
  qed
qed

lemma chunk_butlast: "c \<in> set (butlast (chunk n xs)) \<Longrightarrow> length c = n"
proof (induction n xs rule: chunk.induct)
  case (1 n xs)
  show ?case
  proof (cases "n = 0 \<or> xs = []")
    case True
    with "1.prems" show ?thesis by (auto simp: chunk.simps)
  next
    case False
    show ?thesis
    proof (cases "chunk n (drop n xs) = []")
      case True
      with "1.prems" False show ?thesis by (simp add: chunk_unfold)
    next
      case ne: False
      then have "drop n xs \<noteq> []" by auto
      then have "n < length xs" by simp
      with "1.prems" "1.IH" False ne show ?thesis
        by (auto simp: chunk_unfold)
    qed
  qed
qed

lemma chunk_2500:
  assumes "length xs = 2500"
  shows "map length (chunk 1000 xs) = [1000, 1000, 500]"
proof -
  from assms have a: "xs \<noteq> []" "drop 1000 xs \<noteq> []" "drop 1000 (drop 1000 xs) \<noteq> []"
    "drop 1000 (drop 1000 (drop 1000 xs)) = []"
    by auto
  show ?thesis
    using assms by (simp add: chunk_unfold a)
qed

lemma batchDelete_run:
  assumes "batchDeleteEmails g ids False w = (res, w', tr)"
  shows "chunksRequested tr = chunk batchSize ids"
    and "totalFound res = length ids"
    and "deleted res = deletedCount (deletionRequests tr)"
    and "errors res = failureMsgs (deletionRequests tr)"
  using batchLoop_run[of g ids 0 "\<lparr>totalFound = length ids, deleted = 0, errors = []\<rparr>" w "[]" res w' tr]
    assms
  by (auto simp: batchDeleteEmails_def chunksRequested_def)

lemma accounting:
  "deletedCount rs + sum_list (map length (map fst (filter (\<lambda>(b, r). r \<noteq> None) rs)))
     = length (concat (map fst rs))"
  by (induction rs rule: deletedCount.induct) auto

lemma failureMsgs_length:
  "length (failureMsgs rs) = length (filter (\<lambda>(b, r). r \<noteq> None) rs)"
  by (induction rs rule: failureMsgs.induct) auto

text \<open>
  Claim C2. Without dry run, the chunks sent to the provider, in the order of the requests,
  are the id list cut into consecutive chunks of 1000: their concatenation is the list, none
  is empty, none is longer than 1000, all but the last are exactly 1000 long. The provider
  is handed one deletion request per chunk, one after the other: the outcomes in the trace
  and the world at the end are those of handing it the chunks in turn. For 2500 ids the
  sizes are 1000, 1000, 500, and when the outcomes of the three requests are success,
  failure, success, the result is 2500 found, 1500 deleted and the one message of the
  failure.
\<close>

theorem batchDelete_chunking:
  assumes "batchDeleteEmails g messageIds False w = (res, w', tr)"
  shows "chunksRequested tr = chunk 1000 messageIds \<and>
         issueAll g (chunk 1000 messageIds) w = (deletionOutcomes tr, w') \<and>
         concat (chunksRequested tr) = messageIds \<and>
         (\<forall>c \<in> set (chunksRequested tr). c \<noteq> [] \<and> length c \<le> 1000) \<and>
         (\<forall>c \<in> set (butlast (chunksRequested tr)). length c = 1000) \<and>
         (length messageIds = 2500 \<longrightarrow>
            map length (chunksRequested tr) = [1000, 1000, 500] \<and>
            (\<forall>e. deletionOutcomes tr = [None, Some e, None] \<longrightarrow>
               res = \<lparr>totalFound = 2500, deleted = 1500, errors = [deleteErrorMsg e]\<rparr>))"
proof -
  note run = batchDelete_run[OF assms]
  have c: "chunksRequested tr = chunk 1000 messageIds"
    using run(1) by (simp add: batchSize_def)
  have i: "issueAll g (chunk 1000 messageIds) w = (deletionOutcomes tr, w')"
    using batchDelete_issue[OF assms] by (simp add: batchSize_def)
  have 1: "concat (chunksRequested tr) = messageIds"
    by (simp add: c concat_chunk)
  have 2: "\<forall>c \<in> set (chunksRequested tr). c \<noteq> [] \<and> length c \<le> 1000"
    using chunk_member[of _ 1000 messageIds] by (simp add: c)
  have 3: "\<forall>c \<in> set (butlast (chunksRequested tr)). length c = 1000"
    using chunk_butlast[of _ 1000 messageIds] by (simp add: c)
  have 4: "map length (chunksRequested tr) = [1000, 1000, 500]"
    if "length messageIds = 2500"
    using that by (simp add: c chunk_2500)
  have 5: "res = \<lparr>totalFound = 2500, deleted = 1500, errors = [deleteErrorMsg e]\<rparr>"
    if len: "length messageIds = 2500" and out: "deletionOutcomes tr = [None, Some e, None]" for e
  proof -
    from 4[OF len] obtain c1 c2 c3 where cs: "map fst (deletionRequests tr) = [c1, c2, c3]"
      and ls: "length c1 = 1000" "length c2 = 1000" "length c3 = 500"
      by (auto simp: chunksRequested_def map_eq_Cons_conv)
    from cs out have "deletionRequests tr = [(c1, None), (c2, Some e), (c3, None)]"
      by (auto simp: deletionOutcomes_def map_eq_Cons_conv)
    with run(2,3,4) ls len show ?thesis by simp
  qed
  from c i 1 2 3 4 5 show ?thesis by blast
qed


lemma batchLoop_step:
  "i < length ids \<Longrightarrow>
   batchLoop g ids i res w tr =
     (case batchDelete g (slice ids i (i + batchSize)) w of
        (None, w1) \<Rightarrow>
          batchLoop g ids (i + batchSize)
            (res\<lparr>deleted := deleted res + length (slice ids i (i + batchSize))\<rparr>) w1
            (tr @ [Request (BatchDelete (slice ids i (i + batchSize))) None,
              ConsoleLog (deletedBatchLine (length (slice ids i (i + batchSize)))
                (deleted res + length (slice ids i (i + batchSize))) (totalFound res))])
      | (Some e, w1) \<Rightarrow>
          batchLoop g ids (i + batchSize)
            (res\<lparr>errors := errors res @ [deleteErrorMsg e]\<rparr>) w1
            (tr @ [Request (BatchDelete (slice ids i (i + batchSize))) (Some e),
              ConsoleError (deleteErrorMsg e) None]))"
  by (subst batchLoop.simps) (simp add: Let_def split: prod.splits option.splits)

lemma length_manyIds: "length manyIds = 2500"
  by (simp add: manyIds_def)

lemma recording_run:
  "batchDeleteEmails recordingGmail manyIds False []
     = (\<lparr>totalFound = 2500, deleted = 1500,
         errors = [''Error deleting batch: quota exceeded'']\<rparr>,
        [BatchDelete (slice manyIds 0 1000), BatchDelete (slice manyIds 1000 2000),
         BatchDelete (slice manyIds 2000 3000)],
        [Request (BatchDelete (slice manyIds 0 1000)) None,
         ConsoleLog (deletedBatchLine 1000 1000 2500),
         Request (BatchDelete (slice manyIds 1000 2000)) (Some (ErrorObj ''quota exceeded'')),
         ConsoleError ''Error deleting batch: quota exceeded'' None,
         Request (BatchDelete (slice manyIds 2000 3000)) None,
         ConsoleLog (deletedBatchLine 500 1500 2500)])"
proof -
  have l: "length (slice manyIds 0 1000) = 1000" "length (slice manyIds 2000 3000) = 500"
    by (simp_all add: slice_def length_manyIds)
  show ?thesis
    by (simp add: batchDeleteEmails_def batchLoop_step batchLoop_stop length_manyIds
          batchSize_def recordingGmail_def l deleteErrorMsg_def)
qed


text \<open>
  The theorem at 2500 ids against the recording provider, whose second request fails: it
  has been handed the three slices.
\<close>

theorem batchDelete_chunking_witness:
  "length manyIds = 2500 \<and>
   deletionOutcomes (snd (snd (batchDeleteEmails recordingGmail manyIds False [])))
     = [None, Some (ErrorObj ''quota exceeded''), None] \<and>
   map length (chunksRequested (snd (snd (batchDeleteEmails recordingGmail manyIds False []))))
     = [1000, 1000, 500] \<and>
   fst (batchDeleteEmails recordingGmail manyIds False [])
     = \<lparr>totalFound = 2500, deleted = 1500,
        errors = [''Error deleting batch: quota exceeded'']\<rparr> \<and>
   fst (snd (batchDeleteEmails recordingGmail manyIds False []))
     = [BatchDelete (slice manyIds 0 1000), BatchDelete (slice manyIds 1000 2000),
        BatchDelete (slice manyIds 2000 3000)] \<and>
   issueAll recordingGmail (chunk 1000 manyIds) []
     = ([None, Some (ErrorObj ''quota exceeded''), None],
        [BatchDelete (slice manyIds 0 1000), BatchDelete (slice manyIds 1000 2000),
         BatchDelete (slice manyIds 2000 3000)])"
  using batchDelete_chunking[of recordingGmail manyIds "[]"
      "fst (batchDeleteEmails recordingGmail manyIds False [])"
      "fst (snd (batchDeleteEmails recordingGmail manyIds False []))"
      "snd (snd (batchDeleteEmails recordingGmail manyIds False []))"]
    length_manyIds chunk_2500[OF length_manyIds]
  by (simp add: recording_run deletionOutcomes_def deleteErrorMsg_def)

text \<open>
  Claim C1. A dry run over any id list returns the count of the ids as \<open>totalFound\<close>, zero
  deleted and no errors; it leaves the world as it was, writes one line to the console and
  issues no request at all, so no deletion request either.
\<close>

theorem dryRun_preview:
  "batchDeleteEmails g messageIds True w =
     (\<lparr>totalFound = length messageIds, deleted = 0, errors = []\<rparr>, w,
      [ConsoleLog (''[DRY RUN] Would delete '' @ string_of_nat (length messageIds) @ '' emails'')])
   \<and> requests (snd (snd (batchDeleteEmails g messageIds True w))) = []
   \<and> deletionRequests (snd (snd (batchDeleteEmails g messageIds True w))) = []"
  by (simp add: batchDeleteEmails_def)

text \<open>
  Claim C9, as stated, fails for a dry run: with one id nothing is deleted and no chunk
  fails, yet \<open>totalFound\<close> is 1.
\<close>

theorem cleanup_accounting_counterexample:
  "deleted (fst (batchDeleteEmails demoGmail [''m1''] True 0))
     + sum_list (map length (failedChunks (snd (snd (batchDeleteEmails demoGmail [''m1''] True 0)))))
   \<noteq> totalFound (fst (batchDeleteEmails demoGmail [''m1''] True 0))"
  by (simp add: batchDeleteEmails_def failedChunks_def)

text \<open>
  Claim C9, amended. For every call, \<open>deleted\<close> is at most \<open>totalFound\<close> and \<open>errors\<close> has
  one entry per failed chunk. Without dry run, the provider is handed the chunks of the
  trace in turn, \<open>deleted\<close> plus the sizes of the failed chunks is \<open>totalFound\<close>, hence an
  empty \<open>errors\<close> means that everything was deleted. In a dry run nothing is deleted and no
  chunk is requested: the trace holds no request and the world is left as it was.
\<close>

theorem cleanup_accounting:
  assumes "batchDeleteEmails g messageIds dryRun w = (res, w', tr)"
  shows "deleted res \<le> totalFound res \<and>
         length (errors res) = length (failedChunks tr) \<and>
         (if dryRun then
            deleted res = 0 \<and> failedChunks tr = [] \<and> chunksRequested tr = [] \<and>
            requests tr = [] \<and> w' = w
          else
            issueAll g (chunksRequested tr) w = (deletionOutcomes tr, w') \<and>
            deleted res + sum_list (map length (failedChunks tr)) = totalFound res \<and>
            (errors res = [] \<longrightarrow> deleted res = totalFound res))"
proof (cases dryRun)
  case True
  with assms show ?thesis
    by (auto simp: batchDeleteEmails_def failedChunks_def chunksRequested_def)
next
  case False
  with assms have run: "batchDeleteEmails g messageIds False w = (res, w', tr)" by simp
  note r = batchDelete_run[OF run]
  have iss: "issueAll g (chunksRequested tr) w = (deletionOutcomes tr, w')"
    using batchDelete_issue[OF run] r(1) by simp
  have "concat (map fst (deletionRequests tr)) = messageIds"
    using r(1) by (simp add: chunksRequested_def concat_chunk batchSize_def)
  then have acc: "deleted res + sum_list (map length (failedChunks tr)) = totalFound res"
    using accounting[of "deletionRequests tr"] r(2,3) by (simp add: failedChunks_def)
  have len: "length (errors res) = length (failedChunks tr)"
    using r(4) by (simp add: failureMsgs_length failedChunks_def)
  from acc len iss False show ?thesis by auto
qed

lemma recording_small:
  "fst (batchDeleteEmails recordingGmail [''a'', ''b'', ''c''] False [])
     = \<lparr>totalFound = 3, deleted = 3, errors = []\<rparr>"
  "fst (snd (batchDeleteEmails recordingGmail [''a'', ''b'', ''c''] False []))
     = [BatchDelete [''a'', ''b'', ''c'']]"
  "deletionRequests (snd (snd (batchDeleteEmails recordingGmail [''a'', ''b'', ''c''] False [])))
     = [([''a'', ''b'', ''c''], None)]"
  "fst (batchDeleteEmails recordingGmail [''a'', ''b'', ''c''] False [GetProfile])
     = \<lparr>totalFound = 3, deleted = 0, errors = [''Error deleting batch: quota exceeded'']\<rparr>"
  "fst (snd (batchDeleteEmails recordingGmail [''a'', ''b'', ''c''] False [GetProfile]))
     = [GetProfile, BatchDelete [''a'', ''b'', ''c'']]"
  "deletionRequests (snd (snd (batchDeleteEmails recordingGmail [''a'', ''b'', ''c''] False
      [GetProfile])))
     = [([''a'', ''b'', ''c''], Some (ErrorObj ''quota exceeded''))]"
  "batchDeleteEmails recordingGmail [''a''] True []
     = (\<lparr>totalFound = 1, deleted = 0, errors = []\<rparr>, [],
        [ConsoleLog (''[DRY RUN] Would delete '' @ string_of_nat 1 @ '' emails'')])"
  by (simp_all add: batchDeleteEmails_def batchLoop_step batchLoop_stop batchSize_def
        recordingGmail_def slice_def deleteErrorMsg_def)

text \<open>
  The amended claim on a run of three ids in which the request succeeds, on one in which
  it fails, and on a dry run, against the recording provider.
\<close>

theorem cleanup_accounting_witness:
  "fst (batchDeleteEmails recordingGmail [''a'', ''b'', ''c''] False [])
     = \<lparr>totalFound = 3, deleted = 3, errors = []\<rparr> \<and>
   fst (snd (batchDeleteEmails recordingGmail [''a'', ''b'', ''c''] False []))
     = [BatchDelete [''a'', ''b'', ''c'']] \<and>
   fst (batchDeleteEmails recordingGmail [''a'', ''b'', ''c''] False [GetProfile])
     = \<lparr>totalFound = 3, deleted = 0, errors = [''Error deleting batch: quota exceeded'']\<rparr> \<and>
   failedChunks (snd (snd (batchDeleteEmails recordingGmail [''a'', ''b'', ''c''] False
      [GetProfile]))) = [[''a'', ''b'', ''c'']] \<and>
   fst (batchDeleteEmails recordingGmail [''a''] True [])
     = \<lparr>totalFound = 1, deleted = 0, errors = []\<rparr> \<and>
   chunksRequested (snd (snd (batchDeleteEmails recordingGmail [''a''] True []))) = [] \<and>
   fst (snd (batchDeleteEmails recordingGmail [''a''] True [])) = []"
  using cleanup_accounting[of recordingGmail "[''a'', ''b'', ''c'']" False "[]"
      "fst (batchDeleteEmails recordingGmail [''a'', ''b'', ''c''] False [])"
      "fst (snd (batchDeleteEmails recordingGmail [''a'', ''b'', ''c''] False []))"
      "snd (snd (batchDeleteEmails recordingGmail [''a'', ''b'', ''c''] False []))"]
    cleanup_accounting[of recordingGmail "[''a'', ''b'', ''c'']" False "[GetProfile]"
      "fst (batchDeleteEmails recordingGmail [''a'', ''b'', ''c''] False [GetProfile])"
      "fst (snd (batchDeleteEmails recordingGmail [''a'', ''b'', ''c''] False [GetProfile]))"
      "snd (snd (batchDeleteEmails recordingGmail [''a'', ''b'', ''c''] False [GetProfile]))"]
    cleanup_accounting[of recordingGmail "[''a'']" True "[]"
      "fst (batchDeleteEmails recordingGmail [''a''] True [])"
      "fst (snd (batchDeleteEmails recordingGmail [''a''] True []))"
      "snd (snd (batchDeleteEmails recordingGmail [''a''] True []))"]
  by (simp add: recording_small failedChunks_def chunksRequested_def)


section \<open>Searching\<close>

lemma listingRequests_append:
  "listingRequests (xs @ ys) = listingRequests xs @ listingRequests ys"
  by (induction xs rule: listingRequests.induct) auto

lemma fetchRequests_append:
  "fetchRequests (xs @ ys) = fetchRequests xs @ fetchRequests ys"
  by (induction xs rule: fetchRequests.induct) auto

lemma errorLines_append: "errorLines (xs @ ys) = errorLines xs @ errorLines ys"
  by (induction xs rule: errorLines.induct) auto

lemma candidateIds_Nil: "candidateIds [] = []"
  by (simp add: candidateIds_def)

lemma candidateIds_Cons:
  "candidateIds (m # ms) =
     (case message_id m of
        None \<Rightarrow> candidateIds ms
      | Some i \<Rightarrow> if i = [] then candidateIds ms else i # candidateIds ms)"
  by (simp add: candidateIds_def split: option.splits)


lemma fetchLoop_run:
  "fetchLoop g ms matches w tr = (matches', w', tr') \<Longrightarrow>
   \<exists>new. tr' = tr @ new \<and>
     listingRequests new = [] \<and>
     map fst (fetchRequests new) = candidateIds ms \<and>
     map id_of matches' = map id_of matches @ fetchedIds new \<and>
     length matches' + length (failedFetches new) = length matches + length (candidateIds ms) \<and>
     errorLines new = map fetchErrorLine (failedFetches new)"
proof (induction ms arbitrary: matches w tr)
  case Nil
  then show ?case
    by (simp add: candidateIds_Nil fetchedIds_def failedFetches_def)
next
  case (Cons m ms)
  show ?case
  proof (cases "message_id m")
    case None
    with Cons.prems have "fetchLoop g ms matches w tr = (matches', w', tr')" by simp
    from Cons.IH[OF this] None show ?thesis
      by (simp add: candidateIds_Cons)
  next
    case (Some mid)
    show ?thesis
    proof (cases "mid = []")
      case True
      with Cons.prems Some have "fetchLoop g ms matches w tr = (matches', w', tr')" by simp
      from Cons.IH[OF this] Some True show ?thesis
        by (simp add: candidateIds_Cons)
    next
      case False
      obtain r w1 where get: "messagesGet g mid w = (r, w1)"
        by (cases "messagesGet g mid w")
      show ?thesis
      proof (cases r)
        case (Inl e)
        with Cons.prems Some False get have
          "fetchLoop g ms matches w1
             (tr @ [Request (MessagesGet mid) (Some e),
                    ConsoleError (''Error fetching message '' @ mid @ '':'') (Some e)])
           = (matches', w', tr')"
          by simp
        from Cons.IH[OF this] Some False show ?thesis
          by (clarsimp simp: candidateIds_Cons fetchRequests_append listingRequests_append
                errorLines_append fetchedIds_def failedFetches_def fetchErrorLine_def)
      next
        case (Inr sn)
        with Cons.prems Some False get have
          "fetchLoop g ms
             (matches @ [\<lparr>id_of = mid,
                 threadId = (case message_threadId m of Some t \<Rightarrow> t | None \<Rightarrow> []),
                 snippet = stringSubstring g (case sn of Some s \<Rightarrow> s | None \<Rightarrow> []) 0 100\<rparr>])
             w1 (tr @ [Request (MessagesGet mid) None])
           = (matches', w', tr')"
          by (simp add: Let_def)
        from Cons.IH[OF this] Some False show ?thesis
          by (clarsimp simp: candidateIds_Cons fetchRequests_append listingRequests_append
                errorLines_append fetchedIds_def failedFetches_def fetchErrorLine_def)
      qed
    qed
  qed
qed

lemma queryParts_supplied:
  "queryParts c =
     (if supplied (senders c) then [orGroup (map fromTerm (listOf (senders c)))] else [])
     @ (if supplied (subjects c) then [orGroup (map subjectTerm (listOf (subjects c)))] else [])"
proof -
  have f: "(\<lambda>sender. ''from:'' @ sender) = fromTerm"
    by (rule ext) (simp add: fromTerm_def)
  have s: "(\<lambda>subject. ''subject:'' @ [CHR 0x22] @ subject @ [CHR 0x22]) = subjectTerm"
    by (rule ext) (simp add: subjectTerm_def)
  show ?thesis
    unfolding queryParts_def Let_def f s
    by (cases "senders c"; cases "subjects c") (simp_all add: orGroup_def)
qed

lemma searchEmails_request:
  assumes "supplied (senders c) \<or> supplied (subjects c)"
  shows "listingRequests (snd (snd (searchEmails g c w))) = [(searchQuery c, searchLimit c)]"
proof -
  from assms have ne: "length (queryParts c) \<noteq> 0"
    by (auto simp: queryParts_supplied)
  obtain r w1 where l: "messagesList g (searchQuery c) (searchLimit c) w = (r, w1)"
    by (cases "messagesList g (searchQuery c) (searchLimit c) w")
  show ?thesis
  proof (cases r)
    case (Inl e)
    with ne l show ?thesis
      by (simp add: searchEmails_def Let_def searchLimit_def)
  next
    case (Inr listing)
    obtain ms w2 tr2 where f: "fetchLoop g (case listing of Some ms \<Rightarrow> ms | None \<Rightarrow> []) [] w1
       ([ConsoleLog (''Searching for emails with query: '' @ searchQuery c),
         ConsoleLog (''Max results: '' @ numberToString g (effectiveMaxResults c))]
        @ [Request (MessagesList (searchQuery c) (searchLimit c)) None]) = (ms, w2, tr2)"
      by (rule prod_cases3)
    from fetchLoop_run[OF f] obtain new where
      "tr2 = ([ConsoleLog (''Searching for emails with query: '' @ searchQuery c),
         ConsoleLog (''Max results: '' @ numberToString g (effectiveMaxResults c))]
        @ [Request (MessagesList (searchQuery c) (searchLimit c)) None]) @ new"
      "listingRequests new = []"
      by blast
    with ne l Inr f show ?thesis
      by (simp add: searchEmails_def Let_def searchLimit_def listingRequests_append)
  qed
qed



lemma fetchLoop_world:
  "fetchLoop g ms matches w tr = (matches', w', tr') \<Longrightarrow>
   w' = afterFetches g (candidateIds ms) w"
proof (induction ms arbitrary: matches w tr)
  case Nil
  then show ?case by (simp add: candidateIds_Nil)
next
  case (Cons m ms)
  show ?case
  proof (cases "message_id m")
    case None
    with Cons.prems have "fetchLoop g ms matches w tr = (matches', w', tr')" by simp
    from Cons.IH[OF this] None show ?thesis
      by (simp add: candidateIds_Cons)
  next
    case (Some mid)
    show ?thesis
    proof (cases "mid = []")
      case True
      with Cons.prems Some have "fetchLoop g ms matches w tr = (matches', w', tr')" by simp
      from Cons.IH[OF this] Some True show ?thesis
        by (simp add: candidateIds_Cons)
    next
      case False
      obtain r w1 where get: "messagesGet g mid w = (r, w1)"
        by (cases "messagesGet g mid w")
      from Cons.prems Some False get obtain matches1 tr1 where
        "fetchLoop g ms matches1 w1 tr1 = (matches', w', tr')"
        by (cases r) (auto simp: Let_def)
      from Cons.IH[OF this] Some False get show ?thesis
        by (simp add: candidateIds_Cons)
    qed
  qed
qed

lemma searchEmails_world:
  assumes "supplied (senders c) \<or> supplied (subjects c)"
  shows "fst (snd (searchEmails g c w)) = afterSearch g (searchQuery c) (searchLimit c) w"
proof -
  from assms have ne: "length (queryParts c) \<noteq> 0"
    by (auto simp: queryParts_supplied)
  obtain r w1 where l: "messagesList g (searchQuery c) (searchLimit c) w = (r, w1)"
    by (cases "messagesList g (searchQuery c) (searchLimit c) w")
  show ?thesis
  proof (cases r)
    case (Inl e)
    with ne l show ?thesis
      by (simp add: searchEmails_def Let_def searchLimit_def afterSearch_def)
  next
    case (Inr listing)
    define pre where "pre =
       [ConsoleLog (''Searching for emails with query: '' @ searchQuery c),
        ConsoleLog (''Max results: '' @ numberToString g (effectiveMaxResults c))]
        @ [Request (MessagesList (searchQuery c) (searchLimit c)) None]"
    have lo: "(case listing of Some ms \<Rightarrow> ms | None \<Rightarrow> []) = listOf listing"
      by (cases listing) simp_all
    obtain ms w2 tr2 where f: "fetchLoop g (listOf listing) [] w1 pre = (ms, w2, tr2)"
      by (rule prod_cases3)
    from fetchLoop_world[OF f] have "w2 = afterFetches g (candidateIds (listOf listing)) w1" .
    with ne l Inr f show ?thesis
      by (simp add: searchEmails_def Let_def searchLimit_def lo pre_def afterSearch_def)
  qed
qed

text \<open>
  Claim C3. The query of the listing request: with senders only, the parenthesised OR-group
  of the \<open>from:\<close> terms and nothing else; with subjects only, the parenthesised OR-group of
  the quoted \<open>subject:\<close> terms and nothing else; with both, the senders group, \<open>AND\<close>,
  the subjects group.
\<close>

theorem search_query:
  "(supplied (senders c) \<and> \<not> supplied (subjects c) \<longrightarrow>
      map fst (listingRequests (snd (snd (searchEmails g c w))))
        = [orGroup (map fromTerm (listOf (senders c)))]) \<and>
   (\<not> supplied (senders c) \<and> supplied (subjects c) \<longrightarrow>
      map fst (listingRequests (snd (snd (searchEmails g c w))))
        = [orGroup (map subjectTerm (listOf (subjects c)))]) \<and>
   (supplied (senders c) \<and> supplied (subjects c) \<longrightarrow>
      map fst (listingRequests (snd (snd (searchEmails g c w))))
        = [orGroup (map fromTerm (listOf (senders c))) @ '' AND ''
             @ orGroup (map subjectTerm (listOf (subjects c)))])"
  by (auto simp: searchEmails_request searchQuery_def queryParts_supplied)

text \<open>The three shapes, on the examples of the usage text.\<close>

theorem search_query_witness:
  "map fst (listingRequests (snd (snd (searchEmails demoGmail
      \<lparr>senders = Some [''spam@example.com'', ''promos@example.com''], subjects = None,
       maxResults = None\<rparr> 0))))
     = [''(from:spam@example.com OR from:promos@example.com)''] \<and>
   map fst (listingRequests (snd (snd (searchEmails demoGmail
      \<lparr>senders = Some [], subjects = Some [''Unsubscribe'', ''Special Offer''],
       maxResults = None\<rparr> 0))))
     = [''(subject:'' @ [CHR 0x22] @ ''Unsubscribe'' @ [CHR 0x22] @ '' OR subject:''
          @ [CHR 0x22] @ ''Special Offer'' @ [CHR 0x22] @ '')''] \<and>
   map fst (listingRequests (snd (snd (searchEmails demoGmail
      \<lparr>senders = Some [''spam@example.com''], subjects = Some [''Promotion''],
       maxResults = None\<rparr> 0))))
     = [''(from:spam@example.com) AND (subject:'' @ [CHR 0x22] @ ''Promotion''
          @ [CHR 0x22] @ '')'']"
  using search_query[of "\<lparr>senders = Some [''spam@example.com'', ''promos@example.com''],
        subjects = None, maxResults = None\<rparr>" demoGmail 0]
    search_query[of "\<lparr>senders = Some [], subjects = Some [''Unsubscribe'', ''Special Offer''],
        maxResults = None\<rparr>" demoGmail 0]
    search_query[of "\<lparr>senders = Some [''spam@example.com''], subjects = Some [''Promotion''],
        maxResults = None\<rparr>" demoGmail 0]
  by (simp add: orGroup_def fromTerm_def subjectTerm_def)

text \<open>
  Claim C6. With neither a non-empty senders list nor a non-empty subjects list the search
  throws the validation error at once: the trace is empty (no request, no output) and the
  world is untouched.
\<close>

theorem search_requires_criteria:
  "\<not> supplied (senders c) \<Longrightarrow> \<not> supplied (subjects c) \<Longrightarrow>
   searchEmails g c w
     = (Inl (ErrorObj ''At least one sender or subject must be specified''), w, [])"
  by (simp add: searchEmails_def queryParts_supplied)

text \<open>No senders field and an empty subjects list.\<close>

theorem search_requires_criteria_witness:
  "\<not> supplied (None :: string list option) \<and> \<not> supplied (Some ([] :: string list)) \<and>
   searchEmails demoGmail \<lparr>senders = None, subjects = Some [], maxResults = Some (Fin 50)\<rparr> 0
     = (Inl (ErrorObj ''At least one sender or subject must be specified''), 0, []) \<and>
   requests [] = []"
  using search_requires_criteria[of
      "\<lparr>senders = None, subjects = Some [], maxResults = Some (Fin 50)\<rparr>" demoGmail 0]
  by simp

lemma searchLimit_le: "num_le (searchLimit c) (Fin 500)"
proof (cases "effectiveMaxResults c")
  case NaN
  then show ?thesis
    by (auto simp: effectiveMaxResults_def split: option.splits if_splits)
qed (simp_all add: searchLimit_def)

text \<open>
  Claim C4. A search with criteria issues one listing request, and the provider is handed
  that request as the trace has it. The cap it carries is at most 500 whatever the caller
  passed; it is 500 when \<open>maxResults\<close> is absent, 500 for an input of 1000 and for every
  finite input from 500 on, and a non-zero input below 500 is sent as it is.
\<close>

theorem search_limit:
  assumes "supplied (senders c) \<or> supplied (subjects c)"
  shows "\<exists>q m. listingRequests (snd (snd (searchEmails g c w))) = [(q, m)] \<and>
           fst (snd (searchEmails g c w)) = afterSearch g q m w \<and>
           num_le m (Fin 500) \<and>
           (maxResults c = None \<longrightarrow> m = Fin 500) \<and>
           (maxResults c = Some (Fin 1000) \<longrightarrow> m = Fin 500) \<and>
           (\<forall>r. maxResults c = Some (Fin r) \<and> 500 \<le> r \<longrightarrow> m = Fin 500) \<and>
           (\<forall>r. maxResults c = Some (Fin r) \<and> r \<noteq> 0 \<and> r \<le> 500 \<longrightarrow> m = Fin r)"
proof (intro exI[of _ "searchQuery c"] exI[of _ "searchLimit c"] conjI)
  show "listingRequests (snd (snd (searchEmails g c w))) = [(searchQuery c, searchLimit c)]"
    by (rule searchEmails_request[OF assms])
  show "fst (snd (searchEmails g c w)) = afterSearch g (searchQuery c) (searchLimit c) w"
    by (rule searchEmails_world[OF assms])
  show "num_le (searchLimit c) (Fin 500)"
    by (rule searchLimit_le)
  show "maxResults c = None \<longrightarrow> searchLimit c = Fin 500"
    by (simp add: searchLimit_def effectiveMaxResults_def)
  show "maxResults c = Some (Fin 1000) \<longrightarrow> searchLimit c = Fin 500"
    by (simp add: searchLimit_def effectiveMaxResults_def)
  show "\<forall>r. maxResults c = Some (Fin r) \<and> 500 \<le> r \<longrightarrow> searchLimit c = Fin 500"
    by (auto simp: searchLimit_def effectiveMaxResults_def)
  show "\<forall>r. maxResults c = Some (Fin r) \<and> r \<noteq> 0 \<and> r \<le> 500 \<longrightarrow> searchLimit c = Fin r"
    by (auto simp: searchLimit_def effectiveMaxResults_def)
qed

lemma demo_candidates:
  "candidateIds demoListing
     = [''m0'', ''m1'', ''m2'', ''m3'', ''m4'', ''m5'', ''m6'', ''m7'', ''m8'', ''m9'']"
  by (simp add: candidateIds_def demoListing_def demoMessage_def)

lemma recording_after:
  "afterSearch recordingGmail ''(from:spam@example.com)'' m [] = demoCalls m"
  by (simp add: afterSearch_def recordingGmail_def demo_candidates demoCalls_def)

lemma recording_request:
  "listingRequests (snd (snd (searchEmails recordingGmail
      \<lparr>senders = Some [''spam@example.com''], subjects = None, maxResults = mr\<rparr> [])))
   = [(''(from:spam@example.com)'',
       searchLimit \<lparr>senders = Some [''spam@example.com''], subjects = None, maxResults = mr\<rparr>)]"
  by (simp add: searchEmails_request searchQuery_def queryParts_def)

text \<open>Inputs of 1000, none and 50: what the recording provider has been handed.\<close>

theorem search_limit_witness:
  "fst (snd (searchEmails recordingGmail
      \<lparr>senders = Some [''spam@example.com''], subjects = None,
       maxResults = Some (Fin 1000)\<rparr> [])) = demoCalls (Fin 500) \<and>
   fst (snd (searchEmails recordingGmail
      \<lparr>senders = Some [''spam@example.com''], subjects = None,
       maxResults = None\<rparr> [])) = demoCalls (Fin 500) \<and>
   fst (snd (searchEmails recordingGmail
      \<lparr>senders = Some [''spam@example.com''], subjects = None,
       maxResults = Some (Fin 50)\<rparr> [])) = demoCalls (Fin 50) \<and>
   num_le (Fin 50) (Fin 500)"
  using search_limit[of "\<lparr>senders = Some [''spam@example.com''], subjects = None,
       maxResults = Some (Fin 1000)\<rparr>" recordingGmail "[]"]
    search_limit[of "\<lparr>senders = Some [''spam@example.com''], subjects = None,
       maxResults = None\<rparr>" recordingGmail "[]"]
    search_limit[of "\<lparr>senders = Some [''spam@example.com''], subjects = None,
       maxResults = Some (Fin 50)\<rparr>" recordingGmail "[]"]
  by (auto simp: recording_after recording_request)


text \<open>
  Claim C10. An input of \<open>maxResults = 0\<close> is replaced by the default: the listing request
  carries 500, and that is the request the provider is handed. The same holds for every
  falsy number (the zeros and NaN).
\<close>

theorem search_zero_max_results:
  assumes "supplied (senders c) \<or> supplied (subjects c)"
  shows "(maxResults c = Some (Fin 0) \<longrightarrow>
            map snd (listingRequests (snd (snd (searchEmails g c w)))) = [Fin 500] \<and>
            (\<exists>q. listingRequests (snd (snd (searchEmails g c w))) = [(q, Fin 500)] \<and>
                 fst (snd (searchEmails g c w)) = afterSearch g q (Fin 500) w)) \<and>
         (\<forall>n. maxResults c = Some n \<and> \<not> truthy n \<longrightarrow>
            map snd (listingRequests (snd (snd (searchEmails g c w)))) = [Fin 500] \<and>
            (\<exists>q. listingRequests (snd (snd (searchEmails g c w))) = [(q, Fin 500)] \<and>
                 fst (snd (searchEmails g c w)) = afterSearch g q (Fin 500) w))"
proof -
  have lim: "searchLimit c = Fin 500" if "maxResults c = Some n" "\<not> truthy n" for n
    using that by (simp add: searchLimit_def effectiveMaxResults_def)
  have main: "map snd (listingRequests (snd (snd (searchEmails g c w)))) = [Fin 500] \<and>
            (\<exists>q. listingRequests (snd (snd (searchEmails g c w))) = [(q, Fin 500)] \<and>
                 fst (snd (searchEmails g c w)) = afterSearch g q (Fin 500) w)"
    if "maxResults c = Some n" "\<not> truthy n" for n
    using searchEmails_request[OF assms, of g w] searchEmails_world[OF assms, of g w]
      lim[OF that]
    by simp
  have zero: "\<not> truthy (Fin 0)" by simp
  from main zero show ?thesis by blast
qed

text \<open>Inputs of 0 and NaN: the recording provider has been handed a cap of 500.\<close>

theorem search_zero_max_results_witness:
  "\<not> truthy (Fin 0) \<and>
   map snd (listingRequests (snd (snd (searchEmails recordingGmail
      \<lparr>senders = Some [''spam@example.com''], subjects = None,
       maxResults = Some (Fin 0)\<rparr> [])))) = [Fin 500] \<and>
   fst (snd (searchEmails recordingGmail
      \<lparr>senders = Some [''spam@example.com''], subjects = None,
       maxResults = Some (Fin 0)\<rparr> [])) = demoCalls (Fin 500) \<and>
   \<not> truthy NaN \<and>
   map snd (listingRequests (snd (snd (searchEmails recordingGmail
      \<lparr>senders = Some [''spam@example.com''], subjects = None,
       maxResults = Some NaN\<rparr> [])))) = [Fin 500] \<and>
   fst (snd (searchEmails recordingGmail
      \<lparr>senders = Some [''spam@example.com''], subjects = None,
       maxResults = Some NaN\<rparr> [])) = demoCalls (Fin 500)"
  using search_zero_max_results[of "\<lparr>senders = Some [''spam@example.com''], subjects = None,
       maxResults = Some (Fin 0)\<rparr>" recordingGmail "[]"]
    search_zero_max_results[of "\<lparr>senders = Some [''spam@example.com''], subjects = None,
       maxResults = Some NaN\<rparr>" recordingGmail "[]"]
  by (auto simp: recording_after recording_request)








section \<open>Authenticating\<close>

lemma exchangeCode_trace: "\<exists>rest. snd (snd (exchangeCode n code w tr)) = tr @ rest"
  by (auto simp: exchangeCode_def Let_def split: prod.splits sum.splits option.splits)

lemma reauthorize_trace:
  "\<exists>rest. snd (snd (reauthorize n redirectUri w tr))
     = tr @ map ConsoleLog (authorizationLines (generateAuthUrl n w) (valueToString n redirectUri))
         @ rest"
proof (cases "envTruthy (processEnv n w ''AUTH_CODE'')")
  case True
  then show ?thesis
    using exchangeCode_trace[of n "the (processEnv n w ''AUTH_CODE'')" w
        "tr @ map ConsoleLog (authorizationLines (generateAuthUrl n w) (valueToString n redirectUri))"]
    by (auto simp: reauthorize_def Let_def)
next
  case False
  obtain answer w' where q: "rlQuestion n ''Paste the authorization code here: '' w = (answer, w')"
    by (cases "rlQuestion n ''Paste the authorization code here: '' w")
  show ?thesis
  proof (cases "stringTrim n answer = []")
    case True
    with False q show ?thesis
      by (simp add: reauthorize_def Let_def)
  next
    case ne: False
    with False q show ?thesis
      using exchangeCode_trace[of n "stringTrim n answer" w'
        "tr @ map ConsoleLog (authorizationLines (generateAuthUrl n w) (valueToString n redirectUri))
           @ [Question ''Paste the authorization code here: '']"]
      by (auto simp: reauthorize_def Let_def)
  qed
qed

text \<open>
  Claim C7, as stated, fails when the token file exists but does not hold a token: the
  file is read and parsed before the probe and outside its \<^verbatim>\<open>try\<close>, so \<open>authenticate\<close>
  throws the parse error, with no probe and without going on to the authorization flow.
\<close>

theorem saved_token_check_counterexample:
  "existsSync corruptNode 0 ''token.json'' \<and>
   resolveCredentials corruptNode 0
     = Inr (Str ''client-1'', Str ''hush'', Str ''http://localhost'') \<and>
   authenticate corruptNode demoGmail 0
     = (Inl (ErrorObj ''Unexpected token T in JSON at position 0''), 0, []) \<and>
   requests (snd (snd (authenticate corruptNode demoGmail 0))) = []"
  by (simp add: authenticate_def checkSavedToken_def resolveCredentials_def andThen_def
        corruptNode_def demoNode_def demoCredentials_def)

text \<open>
  Claim C7, amended. With the credentials resolved and a token file that exists, can be
  read and parses, the token is installed and probed by one \<open>getProfile\<close> call. If the
  probe succeeds, \<open>authenticate\<close> returns at once: that call is the only request, nothing is
  printed and nothing is asked. If the probe fails, its error is not the result:
  \<open>authenticate\<close> goes on with the authorization flow, whose instructions (with the
  authorization URL) follow the probe in the trace.
\<close>

theorem saved_token_check:
  assumes creds: "resolveCredentials n w = Inr (clientId, clientSecret, redirectUri)"
    and client: "w0 = newOAuth2 n clientId clientSecret redirectUri w"
    and tokenFile: "existsSync n w0 ''token.json''"
    and tokenText: "readFileSync n w0 ''token.json'' = Inr text"
    and parsed: "jsonParse n text = Inr token"
  shows "(\<forall>w1. getProfile g (setCredentials n token w0) = (None, w1) \<longrightarrow>
            authenticate n g w = (Inr (), w1, [Request GetProfile None]) \<and>
            requests (snd (snd (authenticate n g w))) = [(GetProfile, None)] \<and>
            questions (snd (snd (authenticate n g w))) = [] \<and>
            consoleLines (snd (snd (authenticate n g w))) = []) \<and>
         (\<forall>e w1. getProfile g (setCredentials n token w0) = (Some e, w1) \<longrightarrow>
            authenticate n g w
              = reauthorize n redirectUri w1
                  [Request GetProfile (Some e),
                   ConsoleLog ''Saved token is invalid or expired. Re-authenticating...''] \<and>
            (\<exists>rest. snd (snd (authenticate n g w))
               = [Request GetProfile (Some e),
                  ConsoleLog ''Saved token is invalid or expired. Re-authenticating...'']
                 @ map ConsoleLog
                     (authorizationLines (generateAuthUrl n w1) (valueToString n redirectUri))
                 @ rest))"
proof -
  have auth: "authenticate n g w = checkSavedToken n g redirectUri w0"
    using creds client by (simp add: authenticate_def)
  have ok: "authenticate n g w = (Inr (), w1, [Request GetProfile None])"
    if "getProfile g (setCredentials n token w0) = (None, w1)" for w1
    using that tokenFile tokenText parsed by (simp add: auth checkSavedToken_def andThen_def)
  have ko: "authenticate n g w
              = reauthorize n redirectUri w1
                  [Request GetProfile (Some e),
                   ConsoleLog ''Saved token is invalid or expired. Re-authenticating...'']"
    if "getProfile g (setCredentials n token w0) = (Some e, w1)" for e w1
    using that tokenFile tokenText parsed by (simp add: auth checkSavedToken_def andThen_def)
  show ?thesis
  proof (intro conjI allI impI)
    fix w1 assume p: "getProfile g (setCredentials n token w0) = (None, w1)"
    show "authenticate n g w = (Inr (), w1, [Request GetProfile None])"
      by (rule ok[OF p])
    show "requests (snd (snd (authenticate n g w))) = [(GetProfile, None)]"
      by (simp add: ok[OF p])
    show "questions (snd (snd (authenticate n g w))) = []"
      by (simp add: ok[OF p])
    show "consoleLines (snd (snd (authenticate n g w))) = []"
      by (simp add: ok[OF p])
  next
    fix e w1 assume p: "getProfile g (setCredentials n token w0) = (Some e, w1)"
    show "authenticate n g w
              = reauthorize n redirectUri w1
                  [Request GetProfile (Some e),
                   ConsoleLog ''Saved token is invalid or expired. Re-authenticating...'']"
      by (rule ko[OF p])
    show "\<exists>rest. snd (snd (authenticate n g w))
               = [Request GetProfile (Some e),
                  ConsoleLog ''Saved token is invalid or expired. Re-authenticating...'']
                 @ map ConsoleLog
                     (authorizationLines (generateAuthUrl n w1) (valueToString n redirectUri))
                 @ rest"
      unfolding ko[OF p] by (rule reauthorize_trace)
  qed
qed

lemma demo_credentials:
  "resolveCredentials demoNode w = Inr (Str ''client-1'', Str ''hush'', Str ''http://localhost'')"
  by (simp add: resolveCredentials_def demoNode_def andThen_def demoCredentials_def)

lemma demo_token_file:
  "existsSync demoNode w ''token.json''"
  "readFileSync demoNode w ''token.json'' = Inr ''T''"
  "jsonParse demoNode ''T'' = Inr demoToken"
  "newOAuth2 demoNode a b c w = w"
  "setCredentials demoNode t w = w"
  by (simp_all add: demoNode_def)

lemma demo_profile:
  "getProfile demoGmail 0 = (None, 1)"
  "getProfile demoGmail 3 = (Some (ErrorObj ''invalid_grant''), 4)"
  by (simp_all add: demoGmail_def)

text \<open>A saved token that is still valid (world 0), and one that has expired (world 3).\<close>

theorem saved_token_check_witness:
  "existsSync demoNode 0 ''token.json'' \<and>
   getProfile demoGmail (setCredentials demoNode demoToken 0) = (None, 1) \<and>
   authenticate demoNode demoGmail 0 = (Inr (), 1, [Request GetProfile None]) \<and>
   existsSync demoNode 3 ''token.json'' \<and>
   getProfile demoGmail (setCredentials demoNode demoToken 3)
     = (Some (ErrorObj ''invalid_grant''), 4) \<and>
   authenticate demoNode demoGmail 3
     = (Inr (), 5,
        [Request GetProfile (Some (ErrorObj ''invalid_grant'')),
         ConsoleLog ''Saved token is invalid or expired. Re-authenticating...'']
        @ map ConsoleLog (authorizationLines ''https://accounts.example/auth'' ''http://localhost'')
        @ [Request (GetToken ''4/code'') None, WriteFile ''token.json'' ''T'' None,
           ConsoleLog ''Token stored to token.json''])"
  using saved_token_check[OF demo_credentials[of 0] _ demo_token_file(1,2,3),
      of "newOAuth2 demoNode (Str ''client-1'') (Str ''hush'') (Str ''http://localhost'') 0"
         demoGmail]
    saved_token_check[OF demo_credentials[of 3] _ demo_token_file(1,2,3),
      of "newOAuth2 demoNode (Str ''client-1'') (Str ''hush'') (Str ''http://localhost'') 3"
         demoGmail]
    demo_profile
  by (simp add: demo_token_file reauthorize_def exchangeCode_def Let_def envTruthy_def)
     (simp add: demoNode_def)

end
